theory Spec2Isabelle
  imports Main "HOL-Library.Sublist" "HOL-Library.Multiset"
begin

section \<open>Platform abstraction: data model (platform-adapter.interface.ts)\<close>

datatype PostType = IMAGE | CAROUSEL | REEL | VIDEO | TEXT

text \<open>
  \<open>MediaAsset\<close>: the optional numeric fields are \<open>None\<close> when the property is
  \<open>undefined\<close>. \<open>fileType\<close> is a (possibly empty) string. The field \<open>id\<close> is
  written \<open>id_asset\<close> (\<open>id\<close> is the identity function of HOL).
\<close>

record MediaAsset =
  id_asset :: string
  fileUrl :: string
  fileType :: string
  fileSize :: "int option"
  width :: "int option"
  height :: "int option"
  position :: "int option"

record ValidationResult =
  valid :: bool
  errors :: "string list option"
  warnings :: "string list option"

section \<open>JavaScript helpers\<close>

text \<open>Truthiness of an optional number: \<open>undefined\<close> and \<open>0\<close> are falsy.\<close>

definition truthyNum :: "int option \<Rightarrow> bool" where
  "truthyNum v = (case v of None \<Rightarrow> False | Some n \<Rightarrow> n \<noteq> 0)"

text \<open>\<open>String.prototype.startsWith\<close>.\<close>

definition startsWith :: "string \<Rightarrow> string \<Rightarrow> bool" where
  "startsWith s p = prefix p s"

text \<open>Decimal rendering of a non-negative integer inside a template literal.\<close>

definition digit :: "nat \<Rightarrow> char" where
  "digit d = ''0123456789'' ! (d mod 10)"

fun show_nat :: "nat \<Rightarrow> string" where
  "show_nat n = (if n < 10 then [digit n] else show_nat (n div 10) @ [digit n])"

declare show_nat.simps [simp del]

text \<open>\<open>media[0]?.field\<close>: the first asset, if there is one.\<close>

definition first :: "MediaAsset list \<Rightarrow> MediaAsset option" where
  "first media = (case media of [] \<Rightarrow> None | m # _ \<Rightarrow> Some m)"

section \<open>InstagramAdapter.validateMedia (instagram.adapter.ts)\<close>

definition MiB :: int where
  "MiB = 1024 * 1024"

text \<open>\<open>media[0]?.fileType && !media[0].fileType.startsWith(p)\<close>\<close>

definition firstTypeNot :: "MediaAsset list \<Rightarrow> string \<Rightarrow> bool" where
  "firstTypeNot media p =
     (case first media of None \<Rightarrow> False
      | Some m \<Rightarrow> fileType m \<noteq> [] \<and> \<not> startsWith (fileType m) p)"

text \<open>\<open>media[0]?.fileSize && media[0].fileSize > limit\<close>\<close>

definition firstSizeOver :: "MediaAsset list \<Rightarrow> int \<Rightarrow> bool" where
  "firstSizeOver media limit =
     (case first media of None \<Rightarrow> False
      | Some m \<Rightarrow> truthyNum (fileSize m) \<and> the (fileSize m) > limit)"

text \<open>\<open>media[0]?.width && (media[0].width < 320 || media[0].width > 1440)\<close>, for a field \<open>f\<close>.\<close>

definition firstDimOutside :: "MediaAsset list \<Rightarrow> (MediaAsset \<Rightarrow> int option) \<Rightarrow> bool" where
  "firstDimOutside media f =
     (case first media of None \<Rightarrow> False
      | Some m \<Rightarrow> truthyNum (f m) \<and> (the (f m) < 320 \<or> the (f m) > 1440))"

text \<open>\<open>media[0]?.width && media[0].width !== 1080\<close>, for a field \<open>f\<close> and target \<open>t\<close>.\<close>

definition firstDimNot :: "MediaAsset list \<Rightarrow> (MediaAsset \<Rightarrow> int option) \<Rightarrow> int \<Rightarrow> bool" where
  "firstDimNot media f t =
     (case first media of None \<Rightarrow> False
      | Some m \<Rightarrow> truthyNum (f m) \<and> the (f m) \<noteq> t)"

definition pushIf :: "bool \<Rightarrow> string \<Rightarrow> string list" where
  "pushIf c msg = (if c then [msg] else [])"

text \<open>The body of the \<open>media.forEach((m, index) => ...)\<close> callback of the carousel branch.\<close>

definition carouselItem :: "nat \<Rightarrow> MediaAsset \<Rightarrow> string list" where
  "carouselItem index m =
     pushIf (fileType m \<noteq> [] \<and> \<not> startsWith (fileType m) ''image/'')
       (''Item '' @ show_nat (index + 1) @ '' in carousel must be an image'')
     @ pushIf (truthyNum (fileSize m) \<and> the (fileSize m) > 8 * MiB)
       (''Item '' @ show_nat (index + 1) @ '' in carousel exceeds 8MB limit'')"

fun carouselItems :: "nat \<Rightarrow> MediaAsset list \<Rightarrow> string list" where
  "carouselItems index [] = []"
| "carouselItems index (m # ms) = carouselItem index m @ carouselItems (index + 1) ms"

text \<open>The \<open>errors\<close> array at the \<open>return\<close> statement.\<close>

definition validationErrors :: "MediaAsset list \<Rightarrow> PostType \<Rightarrow> string list" where
  "validationErrors media postType =
     (if postType = IMAGE then
        pushIf (length media \<noteq> 1) ''Image post must have exactly 1 image''
        @ pushIf (firstTypeNot media ''image/'') ''Invalid file type for image post. Must be an image.''
        @ pushIf (firstSizeOver media (8 * MiB)) ''Image file size must be less than 8MB''
      else [])
     @ (if postType = CAROUSEL then
          pushIf (length media < 2 \<or> length media > 10)
            ''Carousel post must have between 2 and 10 images''
          @ carouselItems 0 media
        else [])
     @ (if postType = REEL then
          pushIf (length media \<noteq> 1) ''Reel must have exactly 1 video''
          @ pushIf (firstTypeNot media ''video/'') ''Invalid file type for reel. Must be a video.''
          @ pushIf (firstSizeOver media (100 * MiB)) ''Video file size must be less than 100MB''
        else [])"

text \<open>The \<open>warnings\<close> array at the \<open>return\<close> statement.\<close>

definition validationWarnings :: "MediaAsset list \<Rightarrow> PostType \<Rightarrow> string list" where
  "validationWarnings media postType =
     (if postType = IMAGE then
        pushIf (firstDimOutside media width)
          ''Image width should be between 320 and 1440 pixels for best quality''
        @ pushIf (firstDimOutside media height)
          ''Image height should be between 320 and 1440 pixels for best quality''
      else [])
     @ (if postType = REEL then
          pushIf (firstDimNot media width 1080)
            ''Reel width should be 1080 pixels for best quality''
          @ pushIf (firstDimNot media height 1920)
            ''Reel height should be 1920 pixels (9:16 aspect ratio)''
        else [])"

text \<open>\<open>xs.length > 0 ? xs : undefined\<close>\<close>

definition orUndefined :: "string list \<Rightarrow> string list option" where
  "orUndefined xs = (if length xs > 0 then Some xs else None)"

definition validateMedia :: "MediaAsset list \<Rightarrow> PostType \<Rightarrow> ValidationResult" where
  "validateMedia media postType =
     \<lparr> valid = (length (validationErrors media postType) = 0),
       errors = orUndefined (validationErrors media postType),
       warnings = orUndefined (validationWarnings media postType) \<rparr>"

section \<open>Errors and the remote Graph API\<close>

text \<open>
  A thrown JavaScript error: its \<open>message\<close>, and the two properties the code reads
  through optional chaining, \<open>error.response?.data?.error?.message\<close> and
  \<open>error.response?.data?.error?.code\<close> (\<open>None\<close> when the chain is \<open>undefined\<close>).
\<close>

record JsError =
  message :: string
  responseErrorMessage :: "string option"
  responseErrorCode :: "nat option"

text \<open>\<open>new Error(msg)\<close> has no \<open>response\<close> property.\<close>

definition newError :: "string \<Rightarrow> JsError" where
  "newError msg = \<lparr> message = msg, responseErrorMessage = None, responseErrorCode = None \<rparr>"

text \<open>Truthiness of an optional string: \<open>undefined\<close> and the empty string are falsy.\<close>

definition truthyStr :: "string option \<Rightarrow> bool" where
  "truthyStr v = (case v of None \<Rightarrow> False | Some s \<Rightarrow> s \<noteq> [])"

text \<open>\<open>a || b\<close> on an optional string and a string default.\<close>

definition orElse :: "string option \<Rightarrow> string \<Rightarrow> string" where
  "orElse v d = (if truthyStr v then the v else d)"

text \<open>The requests of \<open>InstagramGraphApiService\<close> that the publish protocol issues, with their parameters.\<close>

datatype Request =
    CreateImage string string string string
  | CreateCarouselItem string string string
  | CreateCarousel string string string string
  | CreateReel string string string string
  | PublishContainer string string string
  | GetContainerStatus string string
  | GetPostInfo string string

text \<open>The fields of \<open>response.data\<close> that the service reads.\<close>

record ResponseData =
  data_id :: string
  data_status_code :: string
  data_status :: string
  data_permalink :: string

text \<open>
  The remote platform is a parameter: given the requests made so far and the next request,
  it says how long the call takes (in ms) and whether axios returns data or throws.
\<close>

record Reply =
  took :: nat
  outcome :: "JsError + ResponseData"

type_synonym Remote = "Request list \<Rightarrow> Request \<Rightarrow> Reply"

text \<open>The state the protocol client runs in: the wall clock \<open>Date.now()\<close> and the requests sent.\<close>

record Net =
  clock :: nat
  history :: "Request list"

definition axiosCall :: "Remote \<Rightarrow> Request \<Rightarrow> Net \<Rightarrow> (JsError + ResponseData) \<times> Net" where
  "axiosCall remote req net =
     (outcome (remote (history net) req),
      \<lparr> clock = clock net + took (remote (history net) req), history = history net @ [req] \<rparr>)"

text \<open>\<open>new Error(`${prefix}${error.response?.data?.error?.message || error.message}`)\<close>\<close>

definition wrapError :: "string \<Rightarrow> JsError \<Rightarrow> JsError" where
  "wrapError pre e = newError (pre @ orElse (responseErrorMessage e) (message e))"

section \<open>InstagramGraphApiService (instagram-graph-api.service.ts)\<close>

definition createImageContainer ::
  "Remote \<Rightarrow> string \<Rightarrow> string \<Rightarrow> string \<Rightarrow> string \<Rightarrow> Net \<Rightarrow> (JsError + string) \<times> Net" where
  "createImageContainer remote igAccount imageUrl capt token net =
     (case axiosCall remote (CreateImage igAccount imageUrl capt token) net of
        (Inl e, net') \<Rightarrow> (Inl (wrapError ''Failed to create image container: '' e), net')
      | (Inr d, net') \<Rightarrow> (Inr (data_id d), net'))"

text \<open>The \<open>for\<close> loop of \<open>createCarouselContainers\<close>: one request per URL, in list order.\<close>

fun carouselItemLoop ::
  "Remote \<Rightarrow> string \<Rightarrow> string \<Rightarrow> string list \<Rightarrow> string list \<Rightarrow> Net \<Rightarrow> (JsError + string list) \<times> Net" where
  "carouselItemLoop remote igAccount token [] containerIds net = (Inr containerIds, net)"
| "carouselItemLoop remote igAccount token (u # us) containerIds net =
     (case axiosCall remote (CreateCarouselItem igAccount u token) net of
        (Inl e, net') \<Rightarrow> (Inl e, net')
      | (Inr d, net') \<Rightarrow> carouselItemLoop remote igAccount token us (containerIds @ [data_id d]) net')"

text \<open>\<open>Array.prototype.join(',')\<close>\<close>

fun joinComma :: "string list \<Rightarrow> string" where
  "joinComma [] = []"
| "joinComma [x] = x"
| "joinComma (x # y # ys) = x @ '','' @ joinComma (y # ys)"

definition createCarouselContainers ::
  "Remote \<Rightarrow> string \<Rightarrow> string list \<Rightarrow> string \<Rightarrow> string \<Rightarrow> Net \<Rightarrow> (JsError + string list) \<times> Net" where
  "createCarouselContainers remote igAccount imageUrls capt token net =
     (case carouselItemLoop remote igAccount token imageUrls [] net of
        (Inl e, net') \<Rightarrow> (Inl (wrapError ''Failed to create carousel: '' e), net')
      | (Inr containerIds, net') \<Rightarrow>
          (case axiosCall remote (CreateCarousel igAccount (joinComma containerIds) capt token) net' of
             (Inl e, net'') \<Rightarrow> (Inl (wrapError ''Failed to create carousel: '' e), net'')
           | (Inr d, net'') \<Rightarrow> (Inr [data_id d], net'')))"

definition createReelContainer ::
  "Remote \<Rightarrow> string \<Rightarrow> string \<Rightarrow> string \<Rightarrow> string \<Rightarrow> string \<Rightarrow> Net \<Rightarrow> (JsError + string) \<times> Net" where
  "createReelContainer remote igAccount videoUrl capt coverUrl token net =
     (case axiosCall remote (CreateReel igAccount videoUrl capt token) net of
        (Inl e, net') \<Rightarrow> (Inl (wrapError ''Failed to create reel container: '' e), net')
      | (Inr d, net') \<Rightarrow> (Inr (data_id d), net'))"

definition publishContainer ::
  "Remote \<Rightarrow> string \<Rightarrow> string \<Rightarrow> string \<Rightarrow> Net \<Rightarrow> (JsError + ResponseData) \<times> Net" where
  "publishContainer remote igAccount containerId token net =
     (case axiosCall remote (PublishContainer igAccount containerId token) net of
        (Inl e, net') \<Rightarrow> (Inl (wrapError ''Failed to publish post: '' e), net')
      | (Inr d, net') \<Rightarrow> (Inr d, net'))"

definition getContainerStatus ::
  "Remote \<Rightarrow> string \<Rightarrow> string \<Rightarrow> Net \<Rightarrow> (JsError + ResponseData) \<times> Net" where
  "getContainerStatus remote containerId token net =
     (case axiosCall remote (GetContainerStatus containerId token) net of
        (Inl e, net') \<Rightarrow> (Inl (wrapError ''Failed to get container status: '' e), net')
      | (Inr d, net') \<Rightarrow> (Inr d, net'))"

definition getPostInfo ::
  "Remote \<Rightarrow> string \<Rightarrow> string \<Rightarrow> Net \<Rightarrow> (JsError + ResponseData) \<times> Net" where
  "getPostInfo remote postId token net =
     (case axiosCall remote (GetPostInfo postId token) net of
        (Inl e, net') \<Rightarrow> (Inl (wrapError ''Failed to get post info: '' e), net')
      | (Inr d, net') \<Rightarrow> (Inr d, net'))"

section \<open>InstagramAdapter: the publish protocol (instagram.adapter.ts)\<close>

text \<open>
  The post handed to the adapter: the \<open>ScheduledPost\<close> interface together with the two
  properties the adapter reads through \<open>(post as any)\<close>, which may be \<open>undefined\<close>.
  Dates are milliseconds.
\<close>

record PlatformPost =
  id_post :: string
  userId :: string
  socialAccountId :: string
  platform :: string
  postType :: PostType
  caption :: "string option"
  scheduledAt :: nat
  mediaAssets :: "MediaAsset list"
  accessToken :: "string option"
  igAccountId :: "string option"

record PublishResult =
  success :: bool
  platformPostId :: "string option"
  platformPostUrl :: "string option"
  error :: "string option"
  errorCode :: "string option"

definition pollInterval :: nat where
  "pollInterval = 2000"

text \<open>
  The \<open>while\<close> loop of \<open>waitForContainerReady\<close>. The clock advances by the duration of
  each status request and by \<open>pollInterval\<close> for each \<open>setTimeout\<close>.
\<close>

function pollLoop ::
  "Remote \<Rightarrow> string \<Rightarrow> string \<Rightarrow> nat \<Rightarrow> nat \<Rightarrow> Net \<Rightarrow> (JsError + unit) \<times> Net" where
  "pollLoop remote containerId token timeout startTime net =
     (if clock net - startTime < timeout then
        (case getContainerStatus remote containerId token net of
           (Inl e, net1) \<Rightarrow> (Inl e, net1)
         | (Inr status, net1) \<Rightarrow>
             if data_status_code status = ''FINISHED'' then (Inr (), net1)
             else if data_status_code status = ''ERROR'' then
               (Inl (newError (''Container processing failed: ''
                       @ orElse (Some (data_status status)) ''Unknown error'')), net1)
             else
               pollLoop remote containerId token timeout startTime
                 (net1 \<lparr> clock := clock net1 + pollInterval \<rparr>))
      else (Inl (newError ''Container processing timeout''), net))"
  by pat_completeness auto
termination
proof (relation "measure (\<lambda>(remote, containerId, token, timeout, startTime, net).
                  startTime + timeout - clock net)")
  show "wf (measure (\<lambda>(remote, containerId, token, timeout, startTime, net).
                  startTime + timeout - clock net))"
    by simp
next
  fix remote :: Remote and containerId token :: string and timeout startTime :: nat
    and net net1 :: Net and x :: "JsError + ResponseData" and status :: ResponseData
  assume running: "clock net - startTime < timeout"
    and call: "(x, net1) = getContainerStatus remote containerId token net"
  have "clock net \<le> clock net1"
    using call by (auto simp: getContainerStatus_def axiosCall_def split: sum.splits)
  with running
  show "((remote, containerId, token, timeout, startTime,
          net1\<lparr>clock := clock net1 + pollInterval\<rparr>),
         (remote, containerId, token, timeout, startTime, net))
        \<in> measure (\<lambda>(remote, containerId, token, timeout, startTime, net).
                  startTime + timeout - clock net)"
    by (simp add: pollInterval_def)
qed

declare pollLoop.simps [simp del]

definition waitForContainerReady ::
  "Remote \<Rightarrow> string \<Rightarrow> string \<Rightarrow> nat \<Rightarrow> Net \<Rightarrow> (JsError + unit) \<times> Net" where
  "waitForContainerReady remote containerId token timeout net =
     pollLoop remote containerId token timeout (clock net) net"

text \<open>The default value of the \<open>timeout\<close> parameter, and the value \<open>publishReel\<close> passes.\<close>

definition defaultTimeout :: nat where
  "defaultTimeout = 10000"

definition reelTimeout :: nat where
  "reelTimeout = 30000"

text \<open>
  \<open>post.mediaAssets.sort((a, b) => (a.position || 0) - (b.position || 0))\<close>:
  \<open>Array.prototype.sort\<close> is stable, as is \<open>sort_key\<close>.
\<close>

definition positionKey :: "MediaAsset \<Rightarrow> int" where
  "positionKey m = (case position m of None \<Rightarrow> 0 | Some p \<Rightarrow> p)"

definition sortByPosition :: "MediaAsset list \<Rightarrow> MediaAsset list" where
  "sortByPosition media = sort_key positionKey media"

text \<open>The tail shared by both publish operations: wait, publish, fetch the post info.\<close>

definition finishPublish ::
  "Remote \<Rightarrow> string \<Rightarrow> string \<Rightarrow> string \<Rightarrow> nat \<Rightarrow> Net \<Rightarrow> (JsError + PublishResult) \<times> Net" where
  "finishPublish remote igAccount containerId token timeout net =
     (case waitForContainerReady remote containerId token timeout net of
        (Inl e, net1) \<Rightarrow> (Inl e, net1)
      | (Inr _, net1) \<Rightarrow>
          (case publishContainer remote igAccount containerId token net1 of
             (Inl e, net2) \<Rightarrow> (Inl e, net2)
           | (Inr publishResult, net2) \<Rightarrow>
               (case getPostInfo remote (data_id publishResult) token net2 of
                  (Inl e, net3) \<Rightarrow> (Inl e, net3)
                | (Inr postInfo, net3) \<Rightarrow>
                    (Inr \<lparr> success = True,
                           platformPostId = Some (data_id publishResult),
                           platformPostUrl = Some (data_permalink postInfo),
                           error = None, errorCode = None \<rparr>, net3))))"

text \<open>The \<open>try\<close> block of \<open>publishPost\<close>; \<open>Inl\<close> is a \<open>throw\<close>.\<close>

fun postTypeName :: "PostType \<Rightarrow> string" where
  "postTypeName IMAGE = ''IMAGE''"
| "postTypeName CAROUSEL = ''CAROUSEL''"
| "postTypeName REEL = ''REEL''"
| "postTypeName VIDEO = ''VIDEO''"
| "postTypeName TEXT = ''TEXT''"

definition publishPost_try :: "Remote \<Rightarrow> PlatformPost \<Rightarrow> Net \<Rightarrow> (JsError + PublishResult) \<times> Net" where
  "publishPost_try remote post net =
     (if \<not> truthyStr (accessToken post) \<or> \<not> truthyStr (igAccountId post) then
        (Inl (newError ''Missing access token or Instagram account ID''), net)
      else if postType post = IMAGE then
        (case mediaAssets post of
           [m] \<Rightarrow>
             (case createImageContainer remote (the (igAccountId post)) (fileUrl m)
                     (orElse (caption post) []) (the (accessToken post)) net of
                (Inl e, net1) \<Rightarrow> (Inl e, net1)
              | (Inr containerId, net1) \<Rightarrow>
                  finishPublish remote (the (igAccountId post)) containerId
                    (the (accessToken post)) defaultTimeout net1)
         | _ \<Rightarrow> (Inl (newError ''Image post must have exactly 1 image''), net))
      else if postType post = CAROUSEL then
        (case createCarouselContainers remote (the (igAccountId post))
                (map fileUrl (sortByPosition (mediaAssets post)))
                (orElse (caption post) []) (the (accessToken post)) net of
           (Inl e, net1) \<Rightarrow> (Inl e, net1)
         | (Inr containerIds, net1) \<Rightarrow>
             finishPublish remote (the (igAccountId post)) (hd containerIds)
               (the (accessToken post)) defaultTimeout net1)
      else
        (Inl (newError (''Unsupported post type: '' @ postTypeName (postType post))), net))"

text \<open>
  The \<open>catch\<close> block shared by both publish operations:
  \<open>errorCode: error.response?.data?.error?.code?.toString() || 'UNKNOWN'\<close>.
\<close>

definition failureResult :: "JsError \<Rightarrow> PublishResult" where
  "failureResult e =
     \<lparr> success = False, platformPostId = None, platformPostUrl = None,
       error = Some (message e),
       errorCode = Some (case responseErrorCode e of None \<Rightarrow> ''UNKNOWN'' | Some c \<Rightarrow> show_nat c) \<rparr>"

text \<open>
  The value of the promise \<open>publishPost\<close> returns: \<open>Inr\<close> when it resolves, \<open>Inl\<close> when it
  rejects (the operation throws to its caller).
\<close>

definition publishPost :: "Remote \<Rightarrow> PlatformPost \<Rightarrow> Net \<Rightarrow> (JsError + PublishResult) \<times> Net" where
  "publishPost remote post net =
     (case publishPost_try remote post net of
        (Inl e, net') \<Rightarrow> (Inr (failureResult e), net')
      | (Inr r, net') \<Rightarrow> (Inr r, net'))"

definition publishReel_try :: "Remote \<Rightarrow> PlatformPost \<Rightarrow> Net \<Rightarrow> (JsError + PublishResult) \<times> Net" where
  "publishReel_try remote reel net =
     (if \<not> truthyStr (accessToken reel) \<or> \<not> truthyStr (igAccountId reel) then
        (Inl (newError ''Missing access token or Instagram account ID''), net)
      else
        (case mediaAssets reel of
           [m] \<Rightarrow>
             (case createReelContainer remote (the (igAccountId reel)) (fileUrl m)
                     (orElse (caption reel) []) (fileUrl m) (the (accessToken reel)) net of
                (Inl e, net1) \<Rightarrow> (Inl e, net1)
              | (Inr containerId, net1) \<Rightarrow>
                  finishPublish remote (the (igAccountId reel)) containerId
                    (the (accessToken reel)) reelTimeout net1)
         | _ \<Rightarrow> (Inl (newError ''Reel must have exactly 1 video''), net)))"

definition publishReel :: "Remote \<Rightarrow> PlatformPost \<Rightarrow> Net \<Rightarrow> (JsError + PublishResult) \<times> Net" where
  "publishReel remote reel net =
     (case publishReel_try remote reel net of
        (Inl e, net') \<Rightarrow> (Inr (failureResult e), net')
      | (Inr r, net') \<Rightarrow> (Inr r, net'))"

section \<open>PlatformFactory (platform-factory.service.ts)\<close>

text \<open>
  The operations of the \<open>PlatformAdapter\<close> interface that the publish pipeline calls. An
  adapter is a parameter of the worker; each operation resolves (\<open>Inr\<close>) or throws (\<open>Inl\<close>).
\<close>

record ConnectedAccount =
  ca_platformUserId :: string
  ca_accessToken :: string
  ca_tokenExpiresAt :: "nat option"

record PlatformAdapter =
  adapter_refreshToken :: "string \<Rightarrow> string \<Rightarrow> JsError + ConnectedAccount"
  adapter_publishPost :: "PlatformPost \<Rightarrow> JsError + PublishResult"
  adapter_publishReel :: "PlatformPost \<Rightarrow> JsError + PublishResult"

text \<open>\<open>String.prototype.toLowerCase\<close> on the ASCII letters.\<close>

definition toLowerChar :: "char \<Rightarrow> char" where
  "toLowerChar c =
     (case map_of (zip ''ABCDEFGHIJKLMNOPQRSTUVWXYZ'' ''abcdefghijklmnopqrstuvwxyz'') c of
        None \<Rightarrow> c | Some l \<Rightarrow> l)"

definition toLowerCase :: "string \<Rightarrow> string" where
  "toLowerCase s = map toLowerChar s"

type_synonym Adapters = "string \<rightharpoonup> PlatformAdapter"

definition register :: "string \<Rightarrow> PlatformAdapter \<Rightarrow> Adapters \<Rightarrow> Adapters" where
  "register platformName adapter adapters = adapters(toLowerCase platformName \<mapsto> adapter)"

text \<open>The constructor registers the Instagram adapter only.\<close>

definition platformFactory :: "PlatformAdapter \<Rightarrow> Adapters" where
  "platformFactory instagramAdapter = register ''instagram'' instagramAdapter Map.empty"

definition getAdapter :: "Adapters \<Rightarrow> string \<Rightarrow> JsError + PlatformAdapter" where
  "getAdapter adapters platformName =
     (case adapters (toLowerCase platformName) of
        None \<Rightarrow> Inl (newError (''Platform adapter not found: '' @ platformName))
      | Some adapter \<Rightarrow> Inr adapter)"

section \<open>SchedulerService.schedulePost (scheduler.service.ts)\<close>

datatype BackoffType = exponential

record JobOptions =
  opt_delay :: "int option"
  attempts :: nat
  backoff_type :: BackoffType
  backoff_delay :: nat

text \<open>The job added to the queue for a post; \<open>now\<close> is \<open>Date.now()\<close>.\<close>

definition schedulePost :: "string \<Rightarrow> int \<Rightarrow> int \<Rightarrow> (string \<times> JobOptions) list \<Rightarrow> (string \<times> JobOptions) list" where
  "schedulePost postId scheduledAtTime now queue =
     (if scheduledAtTime - now < 0 then
        queue @ [(postId, \<lparr> opt_delay = None, attempts = 3,
                             backoff_type = exponential, backoff_delay = 5000 \<rparr>)]
      else
        queue @ [(postId, \<lparr> opt_delay = Some (scheduledAtTime - now), attempts = 3,
                             backoff_type = exponential, backoff_delay = 5000 \<rparr>)])"

section \<open>Persistence (the Prisma models the worker reads and writes)\<close>

datatype PostStatus = PENDING | PUBLISHED | FAILED | CANCELLED

fun statusName :: "PostStatus \<Rightarrow> string" where
  "statusName PENDING = ''PENDING''"
| "statusName PUBLISHED = ''PUBLISHED''"
| "statusName FAILED = ''FAILED''"
| "statusName CANCELLED = ''CANCELLED''"

text \<open>A \<open>media_assets\<close> row; every column but the URL is nullable.\<close>

record MediaAssetRow =
  row_assetId :: string
  row_fileUrl :: string
  row_fileType :: "string option"
  row_fileSize :: "int option"
  row_width :: "int option"
  row_height :: "int option"
  row_position :: "int option"

text \<open>A \<open>scheduled_posts\<close> row with its media assets (\<open>include: { mediaAssets: true }\<close>).\<close>

record ScheduledPostRow =
  row_userId :: string
  row_socialAccountId :: string
  row_platform :: string
  row_postType :: PostType
  row_caption :: "string option"
  row_scheduledAt :: nat
  status :: PostStatus
  row_platformPostId :: "string option"
  retryCount :: nat
  errorMessage :: "string option"
  publishedAt :: "nat option"
  row_mediaAssets :: "MediaAssetRow list"

record SocialAccountRow =
  platformUserId :: string
  acc_accessToken :: string
  refreshToken :: "string option"
  tokenExpiresAt :: "nat option"

text \<open>The \<open>errorDetails\<close> JSON of a job log, by the branch that writes it (the stack is left out).\<close>

datatype ErrorDetails =
    PublishedDetails "string option"
  | FailedDetails "string option" "string option" nat bool
  | CaughtDetails string nat bool

record JobLog =
  scheduledPostId :: string
  log_status :: string
  log_message :: string
  errorDetails :: ErrorDetails

text \<open>
  The state a job runs against: the tables, and two counters that record how often the job
  called \<open>prisma.scheduledPost.update\<close> and an adapter's publish operation. Execution times
  (\<open>executionTimeMs\<close>) are not modelled.
\<close>

record World =
  posts :: "string \<rightharpoonup> ScheduledPostRow"
  accounts :: "string \<rightharpoonup> SocialAccountRow"
  jobLogs :: "JobLog list"
  postUpdates :: nat
  publishCalls :: nat

text \<open>
  \<open>prisma.scheduledPost.update({ where: { id }, data })\<close>. The worker only calls it on a
  row it has just read.
\<close>

definition updatePost :: "string \<Rightarrow> (ScheduledPostRow \<Rightarrow> ScheduledPostRow) \<Rightarrow> World \<Rightarrow> World" where
  "updatePost postId change w =
     w \<lparr> posts := (case posts w postId of None \<Rightarrow> posts w
                    | Some row \<Rightarrow> (posts w)(postId \<mapsto> change row)),
         postUpdates := postUpdates w + 1 \<rparr>"

definition createJobLog :: "JobLog \<Rightarrow> World \<Rightarrow> World" where
  "createJobLog entry w = w \<lparr> jobLogs := jobLogs w @ [entry] \<rparr>"

section \<open>PostsService.preparePostForPublishing (posts.service.ts)\<close>

text \<open>\<open>x || undefined\<close> on a nullable number.\<close>

definition numOrUndefined :: "int option \<Rightarrow> int option" where
  "numOrUndefined v = (if truthyNum v then v else None)"

definition toMediaAsset :: "MediaAssetRow \<Rightarrow> MediaAsset" where
  "toMediaAsset m =
     \<lparr> id_asset = row_assetId m, fileUrl = row_fileUrl m,
       fileType = orElse (row_fileType m) [],
       fileSize = numOrUndefined (row_fileSize m),
       width = numOrUndefined (row_width m),
       height = numOrUndefined (row_height m),
       position = row_position m \<rparr>"

definition toPlatformPost :: "string \<Rightarrow> ScheduledPostRow \<Rightarrow> string \<Rightarrow> SocialAccountRow \<Rightarrow> PlatformPost" where
  "toPlatformPost postId post token account =
     \<lparr> id_post = postId, userId = row_userId post, socialAccountId = row_socialAccountId post,
       platform = row_platform post, postType = row_postType post,
       caption = (if truthyStr (row_caption post) then row_caption post else None),
       scheduledAt = row_scheduledAt post,
       mediaAssets = map toMediaAsset (row_mediaAssets post),
       accessToken = Some token, igAccountId = Some (platformUserId account) \<rparr>"

text \<open>
  \<open>now\<close> is \<open>new Date()\<close>. A post row always has its account (a foreign key); reading
  \<open>post.socialAccount.accessToken\<close> of a missing one is a \<open>TypeError\<close>.
\<close>

definition preparePostForPublishing ::
  "Adapters \<Rightarrow> nat \<Rightarrow> string \<Rightarrow> World \<Rightarrow> (JsError + PlatformPost) \<times> World" where
  "preparePostForPublishing adapters now postId w =
     (case posts w postId of
        None \<Rightarrow> (Inl (newError ''Post not found''), w)
      | Some post \<Rightarrow>
          (case accounts w (row_socialAccountId post) of
             None \<Rightarrow> (Inl (newError ''Cannot read properties of null (reading 'accessToken')''), w)
           | Some account \<Rightarrow>
               if (case tokenExpiresAt account of None \<Rightarrow> False | Some t \<Rightarrow> t \<le> now) then
                 (case getAdapter adapters (row_platform post) of
                    Inl e \<Rightarrow> (Inl e, w)
                  | Inr adapter \<Rightarrow>
                      (case adapter_refreshToken adapter (platformUserId account)
                              (orElse (refreshToken account) (acc_accessToken account)) of
                         Inl e \<Rightarrow> (Inl e, w)
                       | Inr refreshed \<Rightarrow>
                           (Inr (toPlatformPost postId post (ca_accessToken refreshed) account),
                            w \<lparr> accounts := (accounts w)(row_socialAccountId post \<mapsto>
                                   account \<lparr> acc_accessToken := ca_accessToken refreshed,
                                             tokenExpiresAt := ca_tokenExpiresAt refreshed \<rparr>) \<rparr>)))
               else (Inr (toPlatformPost postId post (acc_accessToken account) account), w)))"

section \<open>The publish worker (publish.worker.ts)\<close>

text \<open>What the job handler returns to the queue, or the error it throws (the queue then retries).\<close>

datatype JobReturn =
    ReturnSkipped string
  | ReturnSuccess "string option"
  | ReturnFailure "string option" nat
  | ReturnError string

datatype JobOutcome = Returned JobReturn | Threw JsError

text \<open>The dispatch on the post type: \<open>publishReel\<close> for a reel, \<open>publishPost\<close> otherwise.\<close>

definition callPublish :: "PlatformAdapter \<Rightarrow> PlatformPost \<Rightarrow> JsError + PublishResult" where
  "callPublish adapter post =
     (if postType post = REEL then adapter_publishReel adapter post
      else adapter_publishPost adapter post)"

text \<open>The \<open>try\<close> block of the handler; \<open>Inl\<close> is a \<open>throw\<close> inside it. \<open>now\<close> is \<open>new Date()\<close>.\<close>

definition tryBlock :: "Adapters \<Rightarrow> nat \<Rightarrow> string \<Rightarrow> World \<Rightarrow> (JsError + JobReturn) \<times> World" where
  "tryBlock adapters now postId w =
     (case preparePostForPublishing adapters now postId w of
        (Inl e, w1) \<Rightarrow> (Inl e, w1)
      | (Inr post, w1) \<Rightarrow>
          (case posts w1 postId of
             None \<Rightarrow> (Inl (newError (''Post '' @ postId @ '' not found'')), w1)
           | Some dbPost \<Rightarrow>
               if status dbPost \<noteq> PENDING then
                 (Inr (ReturnSkipped (''Status is '' @ statusName (status dbPost))), w1)
               else
                 (case getAdapter adapters (platform post) of
                    Inl e \<Rightarrow> (Inl e, w1)
                  | Inr adapter \<Rightarrow>
                      (case callPublish adapter post of
                         Inl e \<Rightarrow> (Inl e, w1 \<lparr> publishCalls := publishCalls w1 + 1 \<rparr>)
                       | Inr result \<Rightarrow>
                           if success result then
                             (Inr (ReturnSuccess (platformPostId result)),
                              createJobLog
                                \<lparr> scheduledPostId = postId, log_status = ''published'',
                                  log_message = ''Post published successfully. Platform Post ID: ''
                                    @ (case platformPostId result of None \<Rightarrow> ''undefined''
                                       | Some pid \<Rightarrow> pid),
                                  errorDetails = PublishedDetails (platformPostUrl result) \<rparr>
                                (updatePost postId
                                   (\<lambda>row. row \<lparr> status := PUBLISHED,
                                                row_platformPostId := platformPostId result,
                                                publishedAt := Some now,
                                                errorMessage := None \<rparr>)
                                   (w1 \<lparr> publishCalls := publishCalls w1 + 1 \<rparr>)))
                           else
                             (if retryCount dbPost + 1 < 3 then
                                Inl (newError (orElse (error result) ''Publish failed''))
                              else Inr (ReturnFailure (error result) (retryCount dbPost + 1)),
                              createJobLog
                                \<lparr> scheduledPostId = postId, log_status = ''failed'',
                                  log_message = orElse (error result) ''Publish failed'',
                                  errorDetails = FailedDetails (error result) (errorCode result)
                                    (retryCount dbPost + 1) (retryCount dbPost + 1 < 3) \<rparr>
                                (updatePost postId
                                   (\<lambda>row. row \<lparr> status := (if retryCount dbPost + 1 < 3
                                                           then PENDING else FAILED),
                                                retryCount := retryCount dbPost + 1,
                                                errorMessage := Some (orElse (error result) ''Unknown error'') \<rparr>)
                                   (w1 \<lparr> publishCalls := publishCalls w1 + 1 \<rparr>)))))))"

text \<open>The \<open>catch\<close> block of the handler, entered with the error thrown inside the \<open>try\<close> block.\<close>

definition catchBlock :: "JsError \<Rightarrow> string \<Rightarrow> World \<Rightarrow> JobOutcome \<times> World" where
  "catchBlock err postId w =
     (case posts w postId of
        None \<Rightarrow> (Returned (ReturnError (message err)), w)
      | Some dbPost \<Rightarrow>
          (if retryCount dbPost < 2 then Threw err else Returned (ReturnError (message err)),
           createJobLog
             \<lparr> scheduledPostId = postId, log_status = ''error'',
               log_message = message err,
               errorDetails = CaughtDetails (message err) (retryCount dbPost + 1)
                 (retryCount dbPost + 1 < 3) \<rparr>
             (updatePost postId
                (\<lambda>row. row \<lparr> status := (if retryCount dbPost + 1 < 3 then PENDING else FAILED),
                             retryCount := retryCount dbPost + 1,
                             errorMessage := Some (message err) \<rparr>)
                w)))"

text \<open>One execution of the \<open>'publish-post'\<close> job handler registered by \<open>setupPublishWorker\<close>.\<close>

definition processPublishJob :: "Adapters \<Rightarrow> nat \<Rightarrow> string \<Rightarrow> World \<Rightarrow> JobOutcome \<times> World" where
  "processPublishJob adapters now postId w =
     (case tryBlock adapters now postId w of
        (Inr r, w1) \<Rightarrow> (Returned r, w1)
      | (Inl err, w1) \<Rightarrow> catchBlock err postId w1)"

section \<open>Predicates used to state the properties\<close>

text \<open>
  The mime-type and size rules as \<open>validateMedia\<close> applies them: a rule is checked only
  on metadata that is present (a non-empty \<open>fileType\<close>, a \<open>fileSize\<close> that is set).
\<close>

definition ruleTypeOk :: "string \<Rightarrow> MediaAsset \<Rightarrow> bool" where
  "ruleTypeOk p m = (fileType m = [] \<or> prefix p (fileType m))"

definition ruleSizeOk :: "int \<Rightarrow> MediaAsset \<Rightarrow> bool" where
  "ruleSizeOk limit m = (case fileSize m of None \<Rightarrow> True | Some n \<Rightarrow> n \<le> limit)"

text \<open>A dimension that is set, non-zero and outside 320..1440, respectively different from \<open>t\<close>.\<close>

definition dimOutside :: "int option \<Rightarrow> bool" where
  "dimOutside v = (case v of None \<Rightarrow> False | Some n \<Rightarrow> n \<noteq> 0 \<and> (n < 320 \<or> 1440 < n))"

definition dimOther :: "int \<Rightarrow> int option \<Rightarrow> bool" where
  "dimOther t v = (case v of None \<Rightarrow> False | Some n \<Rightarrow> n \<noteq> 0 \<and> n \<noteq> t)"

text \<open>The error messages of \<open>validateMedia\<close> about the mime type, and those about the size.\<close>

definition isMimeError :: "string \<Rightarrow> bool" where
  "isMimeError e =
     (e = ''Invalid file type for image post. Must be an image.''
      \<or> e = ''Invalid file type for reel. Must be a video.''
      \<or> (prefix ''Item '' e \<and> suffix '' in carousel must be an image'' e))"

definition isSizeError :: "string \<Rightarrow> bool" where
  "isSizeError e =
     (e = ''Image file size must be less than 8MB''
      \<or> e = ''Video file size must be less than 100MB''
      \<or> (prefix ''Item '' e \<and> suffix '' in carousel exceeds 8MB limit'' e))"











text \<open>The \<open>errors\<close> and \<open>warnings\<close> of a result as lists (\<open>undefined\<close> is the empty list).\<close>

definition errorList :: "ValidationResult \<Rightarrow> string list" where
  "errorList r = (case errors r of None \<Rightarrow> [] | Some es \<Rightarrow> es)"

definition warningList :: "ValidationResult \<Rightarrow> string list" where
  "warningList r = (case warnings r of None \<Rightarrow> [] | Some ws \<Rightarrow> ws)"

section \<open>Example inputs\<close>

definition asset :: "string \<Rightarrow> string \<Rightarrow> int option \<Rightarrow> int option \<Rightarrow> MediaAsset" where
  "asset url mime bytes pos =
     \<lparr> id_asset = url, fileUrl = url, fileType = mime, fileSize = bytes,
       width = None, height = None, position = pos \<rparr>"

definition examplePlatformPost :: "PostType \<Rightarrow> MediaAsset list \<Rightarrow> string option \<Rightarrow> PlatformPost" where
  "examplePlatformPost kind media token =
     \<lparr> id_post = ''p1'', userId = ''u1'', socialAccountId = ''acc1'', platform = ''instagram'',
       postType = kind, caption = Some ''hello'', scheduledAt = 1000, mediaAssets = media,
       accessToken = token, igAccountId = Some ''ig1'' \<rparr>"

text \<open>A remote that answers every request at once; containers stay \<open>IN_PROGRESS\<close>.\<close>

definition stuckRemote :: Remote where
  "stuckRemote = (\<lambda>h r.
     \<lparr> took = 0,
       outcome = Inr \<lparr> data_id = ''c1'', data_status_code = ''IN_PROGRESS'',
                       data_status = [], data_permalink = [] \<rparr> \<rparr>)"

text \<open>
  A remote on which everything succeeds: an item submitted with URL \<open>u\<close> gets the container
  identifier \<open>c:u\<close>, and containers are \<open>FINISHED\<close> at the first query.
\<close>

definition readyRemote :: Remote where
  "readyRemote = (\<lambda>h r.
     \<lparr> took = 100,
       outcome = Inr \<lparr> data_id = (case r of CreateCarouselItem _ u _ \<Rightarrow> ''c:'' @ u | _ \<Rightarrow> ''c1''),
                       data_status_code = ''FINISHED'', data_status = [],
                       data_permalink = ''https://instagram.com/p/1'' \<rparr> \<rparr>)"



definition net0 :: Net where
  "net0 = \<lparr> clock = 0, history = [] \<rparr>"

definition examplePost :: "PostStatus \<Rightarrow> nat \<Rightarrow> string \<Rightarrow> ScheduledPostRow" where
  "examplePost st rc plat =
     \<lparr> row_userId = ''u1'', row_socialAccountId = ''acc1'', row_platform = plat,
       row_postType = IMAGE, row_caption = Some ''hello'', row_scheduledAt = 1000,
       status = st, row_platformPostId = None, retryCount = rc, errorMessage = None,
       publishedAt = None,
       row_mediaAssets = [\<lparr> row_assetId = ''m1'', row_fileUrl = ''https://cdn/a.jpg'',
                            row_fileType = Some ''image/jpeg'', row_fileSize = Some 1000,
                            row_width = Some 1080, row_height = Some 1080,
                            row_position = Some 0 \<rparr>] \<rparr>"

definition exampleAccount :: "nat option \<Rightarrow> SocialAccountRow" where
  "exampleAccount expires =
     \<lparr> platformUserId = ''ig1'', acc_accessToken = ''token'', refreshToken = None,
       tokenExpiresAt = expires \<rparr>"

definition exampleWorld :: "ScheduledPostRow \<Rightarrow> SocialAccountRow \<Rightarrow> World" where
  "exampleWorld row account =
     \<lparr> posts = [''p1'' \<mapsto> row], accounts = [''acc1'' \<mapsto> account], jobLogs = [],
       postUpdates = 0, publishCalls = 0 \<rparr>"

text \<open>An adapter whose token refresh throws and whose publish operations report a failure.\<close>

definition failingAdapter :: PlatformAdapter where
  "failingAdapter =
     \<lparr> adapter_refreshToken = (\<lambda>_ _. Inl (newError ''Failed to refresh token: timeout'')),
       adapter_publishPost = (\<lambda>_. Inr (failureResult (newError ''Failed to publish post: rate limit''))),
       adapter_publishReel = (\<lambda>_. Inr (failureResult (newError ''Failed to publish post: rate limit''))) \<rparr>"

text \<open>An adapter whose publish operations succeed.\<close>

definition workingAdapter :: PlatformAdapter where
  "workingAdapter =
     \<lparr> adapter_refreshToken = (\<lambda>_ _. Inl (newError ''Failed to refresh token: timeout'')),
       adapter_publishPost = (\<lambda>_. Inr \<lparr> success = True, platformPostId = Some ''ig_post_1'',
          platformPostUrl = Some ''https://instagram.com/p/1'', error = None, errorCode = None \<rparr>),
       adapter_publishReel = (\<lambda>_. Inr \<lparr> success = True, platformPostId = Some ''ig_post_1'',
          platformPostUrl = Some ''https://instagram.com/p/1'', error = None, errorCode = None \<rparr>) \<rparr>"

section \<open>Facts about validateMedia\<close>

lemmas validate_defs = validateMedia_def validationErrors_def validationWarnings_def pushIf_def
  firstTypeNot_def firstSizeOver_def first_def startsWith_def orUndefined_def truthyNum_def MiB_def
  firstDimOutside_def firstDimNot_def

lemma valid_iff_nil: "valid (validateMedia media k) \<longleftrightarrow> validationErrors media k = []"
  by (simp add: validateMedia_def)

lemma image_valid:
  "valid (validateMedia media IMAGE) \<longleftrightarrow>
     (\<exists>m. media = [m] \<and> ruleTypeOk ''image/'' m \<and> ruleSizeOk (8 * MiB) m)"
  by (cases media) (auto simp: validate_defs ruleTypeOk_def ruleSizeOk_def split: option.splits)

lemma reel_valid:
  "valid (validateMedia media REEL) \<longleftrightarrow>
     (\<exists>m. media = [m] \<and> ruleTypeOk ''video/'' m \<and> ruleSizeOk (100 * MiB) m)"
  by (cases media) (auto simp: validate_defs ruleTypeOk_def ruleSizeOk_def split: option.splits)

lemma carouselItem_nil:
  "carouselItem i m = [] \<longleftrightarrow> ruleTypeOk ''image/'' m \<and> ruleSizeOk (8 * MiB) m"
  by (auto simp: carouselItem_def pushIf_def ruleTypeOk_def ruleSizeOk_def startsWith_def
        truthyNum_def MiB_def split: option.splits)

lemma carouselItems_nil:
  "carouselItems i media = [] \<longleftrightarrow>
     (\<forall>m\<in>set media. ruleTypeOk ''image/'' m \<and> ruleSizeOk (8 * MiB) m)"
  by (induction media arbitrary: i) (auto simp: carouselItem_nil)

lemma carousel_valid:
  "valid (validateMedia media CAROUSEL) \<longleftrightarrow>
     2 \<le> length media \<and> length media \<le> 10
     \<and> (\<forall>m\<in>set media. ruleTypeOk ''image/'' m \<and> ruleSizeOk (8 * MiB) m)"
  by (auto simp: valid_iff_nil validationErrors_def pushIf_def carouselItems_nil)

lemma carouselItems_dims:
  "carouselItems i (map (\<lambda>m. m\<lparr>width := w m, height := h m\<rparr>) media) = carouselItems i media"
  by (induction media arbitrary: i) (auto simp: carouselItem_def)

lemma errors_ignore_dims:
  "validationErrors (map (\<lambda>m. m\<lparr>width := w m, height := h m\<rparr>) media) k = validationErrors media k"
  by (cases media)
     (auto simp: validationErrors_def firstTypeNot_def firstSizeOver_def first_def
        carouselItems_dims carouselItem_def)

lemma image_warnings:
  "warnings (validateMedia media IMAGE) \<noteq> None \<longleftrightarrow>
     (\<exists>m ms. media = m # ms \<and> (dimOutside (width m) \<or> dimOutside (height m)))"
  by (cases media) (auto simp: validate_defs dimOutside_def split: option.splits)

lemma reel_warnings:
  "warnings (validateMedia media REEL) \<noteq> None \<longleftrightarrow>
     (\<exists>m ms. media = m # ms \<and> (dimOther 1080 (width m) \<or> dimOther 1920 (height m)))"
  by (cases media) (auto simp: validate_defs dimOther_def split: option.splits)

lemma suffix_last: "suffix ys xs \<Longrightarrow> ys \<noteq> [] \<Longrightarrow> last xs = last ys"
  by (auto simp: suffix_def)

lemma carouselItem_no_mime:
  "fileType m = [] \<Longrightarrow> \<forall>e\<in>set (carouselItem i m). \<not> isMimeError e"
  by (auto simp: carouselItem_def pushIf_def isMimeError_def dest!: suffix_last)

lemma carouselItem_no_size:
  "fileSize m = None \<Longrightarrow> \<forall>e\<in>set (carouselItem i m). \<not> isSizeError e"
  by (auto simp: carouselItem_def pushIf_def isSizeError_def truthyNum_def dest!: suffix_last)

lemma carouselItems_no_mime:
  "\<forall>m\<in>set media. fileType m = [] \<Longrightarrow> \<forall>e\<in>set (carouselItems j media). \<not> isMimeError e"
  by (induction media arbitrary: j) (auto dest: carouselItem_no_mime)

lemma carouselItems_no_size:
  "\<forall>m\<in>set media. fileSize m = None \<Longrightarrow> \<forall>e\<in>set (carouselItems j media). \<not> isSizeError e"
  by (induction media arbitrary: j) (auto dest: carouselItem_no_size)

lemma literal_not_mime:
  "\<not> isMimeError ''Image post must have exactly 1 image''"
  "\<not> isMimeError ''Image file size must be less than 8MB''"
  "\<not> isMimeError ''Carousel post must have between 2 and 10 images''"
  "\<not> isMimeError ''Reel must have exactly 1 video''"
  "\<not> isMimeError ''Video file size must be less than 100MB''"
  by (simp_all add: isMimeError_def)

lemma literal_not_size:
  "\<not> isSizeError ''Image post must have exactly 1 image''"
  "\<not> isSizeError ''Invalid file type for image post. Must be an image.''"
  "\<not> isSizeError ''Carousel post must have between 2 and 10 images''"
  "\<not> isSizeError ''Reel must have exactly 1 video''"
  "\<not> isSizeError ''Invalid file type for reel. Must be a video.''"
  by (simp_all add: isSizeError_def)

lemma no_mime_errors:
  assumes "\<forall>m\<in>set media. fileType m = []"
  shows "\<forall>e\<in>set (validationErrors media k). \<not> isMimeError e"
  using assms carouselItems_no_mime [OF assms, of 0]
  by (cases media)
     (auto simp: validationErrors_def pushIf_def firstTypeNot_def first_def literal_not_mime)

lemma no_size_errors:
  assumes "\<forall>m\<in>set media. fileSize m = None"
  shows "\<forall>e\<in>set (validationErrors media k). \<not> isSizeError e"
  using assms carouselItems_no_size [OF assms, of 0]
  by (cases media)
     (auto simp: validationErrors_def pushIf_def firstSizeOver_def first_def truthyNum_def
        literal_not_size)

lemma no_dim_warnings:
  assumes "\<forall>m\<in>set media. width m = None \<and> height m = None"
  shows "warnings (validateMedia media k) = None"
  using assms by (cases media) (auto simp: validate_defs)

lemma errorList_validateMedia: "errorList (validateMedia media k) = validationErrors media k"
  by (simp add: errorList_def validateMedia_def orUndefined_def)

lemma warningList_validateMedia: "warningList (validateMedia media k) = validationWarnings media k"
  by (simp add: warningList_def validateMedia_def orUndefined_def)

lemma digit_inj: "digit a = digit b \<Longrightarrow> a mod 10 = b mod 10"
proof -
  assume eq: "digit a = digit b"
  have d: "distinct ''0123456789''" by simp
  have "a mod 10 < length ''0123456789''" "b mod 10 < length ''0123456789''" by simp_all
  with d eq show ?thesis
    unfolding digit_def by (simp only: nth_eq_iff_index_eq)
qed

lemma show_nat_nonempty: "show_nat n \<noteq> []"
  by (subst show_nat.simps) simp

lemma show_nat_inj: "show_nat n = show_nat m \<Longrightarrow> n = m"
proof (induction n arbitrary: m rule: show_nat.induct)
  case (1 n)
  show ?case
  proof (cases "n < 10")
    case small: True
    show ?thesis
    proof (cases "m < 10")
      case True
      with small "1.prems" have "digit n = digit m"
        by (simp add: show_nat.simps [of n] show_nat.simps [of m])
      from digit_inj [OF this] small True show ?thesis by simp
    next
      case False
      with small "1.prems" show ?thesis
        using show_nat_nonempty [of "m div 10"]
        by (simp add: show_nat.simps [of n] show_nat.simps [of m])
    qed
  next
    case big: False
    show ?thesis
    proof (cases "m < 10")
      case True
      with big "1.prems" show ?thesis
        using show_nat_nonempty [of "n div 10"]
        by (simp add: show_nat.simps [of n] show_nat.simps [of m])
    next
      case False
      with big "1.prems" have "show_nat (n div 10) = show_nat (m div 10)" "digit n = digit m"
        by (simp_all add: show_nat.simps [of n] show_nat.simps [of m])
      with "1.IH" [OF big] digit_inj have "n div 10 = m div 10" "n mod 10 = m mod 10"
        by blast+
      then show ?thesis by (metis div_mult_mod_eq)
    qed
  qed
qed

lemma carouselItems_mem:
  "e \<in> set (carouselItems j media) \<longleftrightarrow> (\<exists>i<length media. e \<in> set (carouselItem (j + i) (media ! i)))"
proof (induction media arbitrary: j)
  case Nil
  then show ?case by simp
next
  case (Cons m ms)
  show ?case
  proof
    assume "e \<in> set (carouselItems j (m # ms))"
    then consider "e \<in> set (carouselItem j m)" | "e \<in> set (carouselItems (j + 1) ms)" by auto
    then show "\<exists>i<length (m # ms). e \<in> set (carouselItem (j + i) ((m # ms) ! i))"
    proof cases
      case 1
      then show ?thesis by (intro exI [of _ 0]) simp
    next
      case 2
      with Cons.IH [of "j + 1"] obtain i where "i < length ms" "e \<in> set (carouselItem (j + 1 + i) (ms ! i))"
        by blast
      then show ?thesis by (intro exI [of _ "Suc i"]) simp
    qed
  next
    assume "\<exists>i<length (m # ms). e \<in> set (carouselItem (j + i) ((m # ms) ! i))"
    then obtain i where i: "i < length (m # ms)" "e \<in> set (carouselItem (j + i) ((m # ms) ! i))" by blast
    show "e \<in> set (carouselItems j (m # ms))"
    proof (cases i)
      case 0
      with i show ?thesis by simp
    next
      case (Suc i')
      with i have "i' < length ms" "e \<in> set (carouselItem (j + 1 + i') (ms ! i'))" by simp_all
      with Cons.IH [of "j + 1"] show ?thesis by auto
    qed
  qed
qed

lemma type_msg_in_item:
  assumes "''Item '' @ show_nat (i + 1) @ '' in carousel must be an image'' \<in> set (carouselItem j m)"
  shows "j = i \<and> fileType m \<noteq> []"
proof -
  from assms consider
      (type) "fileType m \<noteq> []"
        "''Item '' @ show_nat (i + 1) @ '' in carousel must be an image''
           = ''Item '' @ show_nat (j + 1) @ '' in carousel must be an image''"
    | (size) "''Item '' @ show_nat (i + 1) @ '' in carousel must be an image''
           = ''Item '' @ show_nat (j + 1) @ '' in carousel exceeds 8MB limit''"
    by (auto simp: carouselItem_def pushIf_def simp del: append_Cons split: if_splits)
  then show ?thesis
  proof cases
    case type
    from type(2) have "show_nat (i + 1) = show_nat (j + 1)" by simp
    from show_nat_inj [OF this] type(1) show ?thesis by simp
  next
    case size
    then have "last (''Item '' @ show_nat (i + 1) @ '' in carousel must be an image'')
             = last (''Item '' @ show_nat (j + 1) @ '' in carousel exceeds 8MB limit'')"
      by (rule arg_cong)
    then show ?thesis by simp
  qed
qed

lemma size_msg_in_item:
  assumes "''Item '' @ show_nat (i + 1) @ '' in carousel exceeds 8MB limit'' \<in> set (carouselItem j m)"
  shows "j = i \<and> fileSize m \<noteq> None"
proof -
  from assms consider
      (size) "truthyNum (fileSize m)"
        "''Item '' @ show_nat (i + 1) @ '' in carousel exceeds 8MB limit''
           = ''Item '' @ show_nat (j + 1) @ '' in carousel exceeds 8MB limit''"
    | (type) "''Item '' @ show_nat (i + 1) @ '' in carousel exceeds 8MB limit''
           = ''Item '' @ show_nat (j + 1) @ '' in carousel must be an image''"
    by (auto simp: carouselItem_def pushIf_def simp del: append_Cons split: if_splits)
  then show ?thesis
  proof cases
    case size
    from size(2) have "show_nat (i + 1) = show_nat (j + 1)" by simp
    from show_nat_inj [OF this] size(1) show ?thesis
      by (auto simp: truthyNum_def split: option.splits)
  next
    case type
    then have "last (''Item '' @ show_nat (i + 1) @ '' in carousel exceeds 8MB limit'')
             = last (''Item '' @ show_nat (j + 1) @ '' in carousel must be an image'')"
      by (rule arg_cong)
    then show ?thesis by simp
  qed
qed

lemma item_type_msg_absent:
  assumes "i < length media" "fileType (media ! i) = []"
  shows "''Item '' @ show_nat (i + 1) @ '' in carousel must be an image'' \<notin> set (validationErrors media k)"
proof
  assume mem: "''Item '' @ show_nat (i + 1) @ '' in carousel must be an image'' \<in> set (validationErrors media k)"
  then have "''Item '' @ show_nat (i + 1) @ '' in carousel must be an image'' \<in> set (carouselItems 0 media)"
    by (auto simp: validationErrors_def pushIf_def split: if_splits)
  then obtain j where "j < length media"
      "''Item '' @ show_nat (i + 1) @ '' in carousel must be an image'' \<in> set (carouselItem (0 + j) (media ! j))"
    unfolding carouselItems_mem by blast
  with type_msg_in_item [of i j "media ! j"] assms show False by auto
qed

lemma item_size_msg_absent:
  assumes "i < length media" "fileSize (media ! i) = None"
  shows "''Item '' @ show_nat (i + 1) @ '' in carousel exceeds 8MB limit'' \<notin> set (validationErrors media k)"
proof
  assume mem: "''Item '' @ show_nat (i + 1) @ '' in carousel exceeds 8MB limit'' \<in> set (validationErrors media k)"
  then have "''Item '' @ show_nat (i + 1) @ '' in carousel exceeds 8MB limit'' \<in> set (carouselItems 0 media)"
    by (auto simp: validationErrors_def pushIf_def split: if_splits)
  then obtain j where "j < length media"
      "''Item '' @ show_nat (i + 1) @ '' in carousel exceeds 8MB limit'' \<in> set (carouselItem (0 + j) (media ! j))"
    unfolding carouselItems_mem by blast
  with size_msg_in_item [of i j "media ! j"] assms show False by auto
qed

lemma carouselItems_prefix: "e \<in> set (carouselItems j media) \<Longrightarrow> prefix ''Item '' e"
  by (induction media arbitrary: j) (auto simp: carouselItem_def pushIf_def split: if_splits)

lemma carouselItems_not_literal:
  "''Invalid file type for image post. Must be an image.'' \<notin> set (carouselItems j media)"
  "''Invalid file type for reel. Must be a video.'' \<notin> set (carouselItems j media)"
  "''Image file size must be less than 8MB'' \<notin> set (carouselItems j media)"
  "''Video file size must be less than 100MB'' \<notin> set (carouselItems j media)"
  using carouselItems_prefix [of _ j media] by fastforce+

lemma first_type_msgs_absent:
  assumes "media \<noteq> []" "fileType (hd media) = []"
  shows "''Invalid file type for image post. Must be an image.'' \<notin> set (validationErrors media k)"
    and "''Invalid file type for reel. Must be a video.'' \<notin> set (validationErrors media k)"
  using assms carouselItems_not_literal [of 0 media]
  by (cases media; auto simp: validationErrors_def pushIf_def firstTypeNot_def first_def)+

lemma first_size_msgs_absent:
  assumes "media \<noteq> []" "fileSize (hd media) = None"
  shows "''Image file size must be less than 8MB'' \<notin> set (validationErrors media k)"
    and "''Video file size must be less than 100MB'' \<notin> set (validationErrors media k)"
  using assms carouselItems_not_literal [of 0 media]
  by (cases media; auto simp: validationErrors_def pushIf_def firstSizeOver_def first_def truthyNum_def)+

lemma width_msgs_absent:
  assumes "media \<noteq> []" "width (hd media) = None"
  shows "''Image width should be between 320 and 1440 pixels for best quality'' \<notin> set (validationWarnings media k)"
    and "''Reel width should be 1080 pixels for best quality'' \<notin> set (validationWarnings media k)"
  using assms
  by (cases media; auto simp: validationWarnings_def pushIf_def firstDimOutside_def firstDimNot_def first_def truthyNum_def)+

lemma height_msgs_absent:
  assumes "media \<noteq> []" "height (hd media) = None"
  shows "''Image height should be between 320 and 1440 pixels for best quality'' \<notin> set (validationWarnings media k)"
    and "''Reel height should be 1920 pixels (9:16 aspect ratio)'' \<notin> set (validationWarnings media k)"
  using assms
  by (cases media; auto simp: validationWarnings_def pushIf_def firstDimOutside_def firstDimNot_def first_def truthyNum_def)+

lemma only_first_checked:
  assumes "length media' = length media" "first media' = first media"
  shows "validationErrors media' IMAGE = validationErrors media IMAGE"
    and "validationErrors media' REEL = validationErrors media REEL"
    and "validationWarnings media' k = validationWarnings media k"
  using assms
  by (simp_all add: validationErrors_def validationWarnings_def firstTypeNot_def firstSizeOver_def
        firstDimOutside_def firstDimNot_def)

section \<open>Claims about validateMedia\<close>

text \<open>
  C6, as stated, fails: a single-image call with exactly 2 assets whose first asset is a
  video reports two errors, not one.
\<close>

theorem two_assets_two_errors:
  "length [asset ''v.mp4'' ''video/mp4'' (Some 1000) (Some 0),
           asset ''a.jpg'' ''image/jpeg'' (Some 1000) (Some 1)] = 2
   \<and> errors (validateMedia [asset ''v.mp4'' ''video/mp4'' (Some 1000) (Some 0),
                             asset ''a.jpg'' ''image/jpeg'' (Some 1000) (Some 1)] IMAGE)
       = Some [''Image post must have exactly 1 image'',
               ''Invalid file type for image post. Must be an image.'']"
  by (simp add: validate_defs asset_def)

text \<open>
  C6, amended: \<open>validateMedia\<close> is a function of the asset list and the post kind alone
  (equal arguments give equal results), and for every single-image call with exactly 2 assets
  the result is invalid and its first error is \<open>Image post must have exactly 1 image\<close>, which
  mentions \<open>exactly 1 image\<close>; it is the only error exactly when the first asset passes the
  mime-type and size checks.
\<close>

theorem validateMedia_two_assets:
  assumes "length media = 2"
  shows "(media' = media \<and> k' = k \<longrightarrow> validateMedia media' k' = validateMedia media k)
     \<and> \<not> valid (validateMedia media IMAGE)
     \<and> (\<exists>rest. errors (validateMedia media IMAGE)
                 = Some (''Image post must have exactly 1 image'' # rest)
           \<and> (rest = [] \<longleftrightarrow> ruleTypeOk ''image/'' (hd media) \<and> ruleSizeOk (8 * MiB) (hd media)))
     \<and> sublist ''exactly 1 image'' ''Image post must have exactly 1 image''"
proof -
  from assms obtain a b where media: "media = [a, b]"
    by (cases media; cases "tl media") auto
  have sub: "sublist ''exactly 1 image'' ''Image post must have exactly 1 image''"
    unfolding sublist_def
    by (rule exI [of _ "''Image post must have ''"], rule exI [of _ "[]"]) simp
  show ?thesis
    using sub
    by (auto simp: media validate_defs ruleTypeOk_def ruleSizeOk_def split: option.splits)
qed

theorem validateMedia_two_assets_witness:
  "length [asset ''a.jpg'' ''image/jpeg'' (Some 1000) (Some 0),
           asset ''b.jpg'' ''image/jpeg'' (Some 1000) (Some 1)] = 2
   \<and> errors (validateMedia [asset ''a.jpg'' ''image/jpeg'' (Some 1000) (Some 0),
                             asset ''b.jpg'' ''image/jpeg'' (Some 1000) (Some 1)] IMAGE)
       = Some [''Image post must have exactly 1 image'']"
proof -
  have len: "length [asset ''a.jpg'' ''image/jpeg'' (Some 1000) (Some 0),
                     asset ''b.jpg'' ''image/jpeg'' (Some 1000) (Some 1)] = 2"
    by simp
  from validateMedia_two_assets [OF len]
  have "\<exists>rest. errors (validateMedia [asset ''a.jpg'' ''image/jpeg'' (Some 1000) (Some 0),
                             asset ''b.jpg'' ''image/jpeg'' (Some 1000) (Some 1)] IMAGE)
                 = Some (''Image post must have exactly 1 image'' # rest)
           \<and> (rest = [] \<longleftrightarrow> ruleTypeOk ''image/'' (hd [asset ''a.jpg'' ''image/jpeg'' (Some 1000) (Some 0),
                             asset ''b.jpg'' ''image/jpeg'' (Some 1000) (Some 1)])
                 \<and> ruleSizeOk (8 * MiB) (hd [asset ''a.jpg'' ''image/jpeg'' (Some 1000) (Some 0),
                             asset ''b.jpg'' ''image/jpeg'' (Some 1000) (Some 1)]))"
    by blast
  then show ?thesis
    using len by (auto simp: ruleTypeOk_def ruleSizeOk_def asset_def MiB_def)
qed

text \<open>
  C7, as stated, fails: a single-image call with one asset whose \<open>fileType\<close> is empty is
  reported valid, although the asset has no image mime type.
\<close>

theorem untyped_image_is_valid:
  "valid (validateMedia [asset ''a.bin'' [] None None] IMAGE)
   \<and> \<not> startsWith (fileType (asset ''a.bin'' [] None None)) ''image/''"
  by (simp add: validate_defs asset_def)

text \<open>
  C7, amended: \<open>validateMedia\<close> returns valid exactly when the error list is empty, and each
  mime-type or size rule is applied only to metadata that is present. Single-image is valid
  iff there is exactly 1 asset, its \<open>fileType\<close> is empty or starts with \<open>image/\<close>, and its
  \<open>fileSize\<close> is absent or at most 8 MiB; carousel is valid iff there are 2 to 10 assets,
  each with an empty or \<open>image/\<close> \<open>fileType\<close> and an absent or at most 8 MiB \<open>fileSize\<close>;
  reel is valid iff there is exactly 1 asset with an empty or \<open>video/\<close> \<open>fileType\<close> and an
  absent or at most 100 MiB \<open>fileSize\<close>. Dimensions never change the errors: for a single
  image a warning is given iff a set, non-zero dimension of the first asset is outside
  320..1440, for a reel iff its set, non-zero width is not 1080 or height is not 1920.
\<close>

theorem validateMedia_rules:
  "(valid (validateMedia media k) \<longleftrightarrow> errors (validateMedia media k) = None)
   \<and> (valid (validateMedia media IMAGE) \<longleftrightarrow>
        (\<exists>m. media = [m] \<and> ruleTypeOk ''image/'' m \<and> ruleSizeOk (8 * MiB) m))
   \<and> (valid (validateMedia media CAROUSEL) \<longleftrightarrow>
        2 \<le> length media \<and> length media \<le> 10
        \<and> (\<forall>m\<in>set media. ruleTypeOk ''image/'' m \<and> ruleSizeOk (8 * MiB) m))
   \<and> (valid (validateMedia media REEL) \<longleftrightarrow>
        (\<exists>m. media = [m] \<and> ruleTypeOk ''video/'' m \<and> ruleSizeOk (100 * MiB) m))
   \<and> validationErrors (map (\<lambda>m. m\<lparr>width := w m, height := h m\<rparr>) media) k
        = validationErrors media k
   \<and> (warnings (validateMedia media IMAGE) \<noteq> None \<longleftrightarrow>
        (\<exists>m ms. media = m # ms \<and> (dimOutside (width m) \<or> dimOutside (height m))))
   \<and> (warnings (validateMedia media REEL) \<noteq> None \<longleftrightarrow>
        (\<exists>m ms. media = m # ms \<and> (dimOther 1080 (width m) \<or> dimOther 1920 (height m))))"
proof -
  have "valid (validateMedia media k) \<longleftrightarrow> errors (validateMedia media k) = None"
    by (simp add: validateMedia_def orUndefined_def)
  moreover note image_valid [of media] carousel_valid [of media] reel_valid [of media]
    errors_ignore_dims [where w = w and h = h and media = media and k = k]
    image_warnings [of media] reel_warnings [of media]
  ultimately show ?thesis
    by - (intro conjI; assumption)
qed

theorem validateMedia_rules_witness:
  "ruleTypeOk ''image/'' (asset ''a.jpg'' ''image/jpeg'' (Some (8 * MiB)) (Some 0))
   \<and> ruleSizeOk (8 * MiB) (asset ''a.jpg'' ''image/jpeg'' (Some (8 * MiB)) (Some 0))
   \<and> ruleTypeOk ''image/'' (asset ''b.jpg'' [] None (Some 1))
   \<and> ruleSizeOk (8 * MiB) (asset ''b.jpg'' [] None (Some 1))
   \<and> valid (validateMedia [asset ''a.jpg'' ''image/jpeg'' (Some (8 * MiB)) (Some 0),
                           asset ''b.jpg'' [] None (Some 1)] CAROUSEL)
   \<and> \<not> valid (validateMedia [asset ''a.jpg'' ''image/jpeg'' (Some (8 * MiB)) (Some 0),
                              asset ''b.jpg'' [] None (Some 1)] IMAGE)"
proof -
  have ok: "ruleTypeOk ''image/'' (asset ''a.jpg'' ''image/jpeg'' (Some (8 * MiB)) (Some 0))"
    "ruleSizeOk (8 * MiB) (asset ''a.jpg'' ''image/jpeg'' (Some (8 * MiB)) (Some 0))"
    "ruleTypeOk ''image/'' (asset ''b.jpg'' [] None (Some 1))"
    "ruleSizeOk (8 * MiB) (asset ''b.jpg'' [] None (Some 1))"
    by (simp_all add: ruleTypeOk_def ruleSizeOk_def asset_def)
  then have all: "\<forall>m\<in>set [asset ''a.jpg'' ''image/jpeg'' (Some (8 * MiB)) (Some 0),
              asset ''b.jpg'' [] None (Some 1)].
      ruleTypeOk ''image/'' m \<and> ruleSizeOk (8 * MiB) m"
    by simp
  have len: "2 \<le> length [asset ''a.jpg'' ''image/jpeg'' (Some (8 * MiB)) (Some 0),
              asset ''b.jpg'' [] None (Some 1)]
             \<and> length [asset ''a.jpg'' ''image/jpeg'' (Some (8 * MiB)) (Some 0),
              asset ''b.jpg'' [] None (Some 1)] \<le> 10"
    by simp
  have two: "\<not> (\<exists>m. [asset ''a.jpg'' ''image/jpeg'' (Some (8 * MiB)) (Some 0),
              asset ''b.jpg'' [] None (Some 1)] = [m]
             \<and> ruleTypeOk ''image/'' m \<and> ruleSizeOk (8 * MiB) m)"
    by simp
  from validateMedia_rules
         [where media = "[asset ''a.jpg'' ''image/jpeg'' (Some (8 * MiB)) (Some 0),
                          asset ''b.jpg'' [] None (Some 1)]"]
       all len two
  have "valid (validateMedia [asset ''a.jpg'' ''image/jpeg'' (Some (8 * MiB)) (Some 0),
                           asset ''b.jpg'' [] None (Some 1)] CAROUSEL)
   \<and> \<not> valid (validateMedia [asset ''a.jpg'' ''image/jpeg'' (Some (8 * MiB)) (Some 0),
                              asset ''b.jpg'' [] None (Some 1)] IMAGE)"
    by blast
  with ok show ?thesis by blast
qed

text \<open>
  C10: \<open>validateMedia\<close> enforces a rule only on metadata that is present, asset by asset and
  field by field, whatever the other assets and fields of the call are. For every post kind
  and every asset at index \<open>i\<close> of the call:
  \<^item> if its \<open>fileType\<close> is empty, the result has no mime-type error for it: no
    \<open>Item i+1 in carousel must be an image\<close> and, for the first asset, no
    \<open>Invalid file type\<close> error;
  \<^item> if its \<open>fileSize\<close> is absent, the result has no size error for it: no
    \<open>Item i+1 in carousel exceeds 8MB limit\<close> and, for the first asset, no
    \<open>file size must be less than\<close> error;
  \<^item> if the \<open>width\<close> of the first asset is absent there is no width warning, and if its
    \<open>height\<close> is absent there is no height warning;
  \<^item> assets after the first raise no single-image or reel error and no warning at all: these
    depend only on the number of assets and on the first one.
  Hence a call whose assets all have an empty \<open>fileType\<close> has no mime-type error, one whose
  assets all lack \<open>fileSize\<close> has no size error, and a single-image call with one asset that
  has an empty \<open>fileType\<close> and no \<open>fileSize\<close> is reported valid.
\<close>

theorem validateMedia_absent_metadata:
  "(i < length media \<and> fileType (media ! i) = [] \<longrightarrow>
      ''Item '' @ show_nat (i + 1) @ '' in carousel must be an image''
         \<notin> set (errorList (validateMedia media k))
      \<and> (i = 0 \<longrightarrow>
          ''Invalid file type for image post. Must be an image.''
             \<notin> set (errorList (validateMedia media k))
          \<and> ''Invalid file type for reel. Must be a video.''
             \<notin> set (errorList (validateMedia media k))))
   \<and> (i < length media \<and> fileSize (media ! i) = None \<longrightarrow>
      ''Item '' @ show_nat (i + 1) @ '' in carousel exceeds 8MB limit''
         \<notin> set (errorList (validateMedia media k))
      \<and> (i = 0 \<longrightarrow>
          ''Image file size must be less than 8MB'' \<notin> set (errorList (validateMedia media k))
          \<and> ''Video file size must be less than 100MB''
             \<notin> set (errorList (validateMedia media k))))
   \<and> (media \<noteq> [] \<and> width (hd media) = None \<longrightarrow>
      ''Image width should be between 320 and 1440 pixels for best quality''
         \<notin> set (warningList (validateMedia media k))
      \<and> ''Reel width should be 1080 pixels for best quality''
         \<notin> set (warningList (validateMedia media k)))
   \<and> (media \<noteq> [] \<and> height (hd media) = None \<longrightarrow>
      ''Image height should be between 320 and 1440 pixels for best quality''
         \<notin> set (warningList (validateMedia media k))
      \<and> ''Reel height should be 1920 pixels (9:16 aspect ratio)''
         \<notin> set (warningList (validateMedia media k)))
   \<and> (length media' = length media \<and> first media' = first media \<longrightarrow>
      errorList (validateMedia media' IMAGE) = errorList (validateMedia media IMAGE)
      \<and> errorList (validateMedia media' REEL) = errorList (validateMedia media REEL)
      \<and> warningList (validateMedia media' k) = warningList (validateMedia media k))
   \<and> ((\<forall>m\<in>set media. fileType m = []) \<longrightarrow>
      (\<forall>e\<in>set (errorList (validateMedia media k)). \<not> isMimeError e))
   \<and> ((\<forall>m\<in>set media. fileSize m = None) \<longrightarrow>
      (\<forall>e\<in>set (errorList (validateMedia media k)). \<not> isSizeError e))
   \<and> ((\<forall>m\<in>set media. width m = None \<and> height m = None) \<longrightarrow>
      warnings (validateMedia media k) = None)
   \<and> (fileType a = [] \<and> fileSize a = None \<longrightarrow>
      valid (validateMedia [a] IMAGE) \<and> errors (validateMedia [a] IMAGE) = None)"
proof (intro conjI)
  show "i < length media \<and> fileType (media ! i) = [] \<longrightarrow>
      ''Item '' @ show_nat (i + 1) @ '' in carousel must be an image''
         \<notin> set (errorList (validateMedia media k))
      \<and> (i = 0 \<longrightarrow>
          ''Invalid file type for image post. Must be an image.''
             \<notin> set (errorList (validateMedia media k))
          \<and> ''Invalid file type for reel. Must be a video.''
             \<notin> set (errorList (validateMedia media k)))"
    using item_type_msg_absent [of i media k] first_type_msgs_absent [of media k]
    by (cases media) (auto simp: errorList_validateMedia)
  show "i < length media \<and> fileSize (media ! i) = None \<longrightarrow>
      ''Item '' @ show_nat (i + 1) @ '' in carousel exceeds 8MB limit''
         \<notin> set (errorList (validateMedia media k))
      \<and> (i = 0 \<longrightarrow>
          ''Image file size must be less than 8MB'' \<notin> set (errorList (validateMedia media k))
          \<and> ''Video file size must be less than 100MB''
             \<notin> set (errorList (validateMedia media k)))"
    using item_size_msg_absent [of i media k] first_size_msgs_absent [of media k]
    by (cases media) (auto simp: errorList_validateMedia)
  show "media \<noteq> [] \<and> width (hd media) = None \<longrightarrow>
      ''Image width should be between 320 and 1440 pixels for best quality''
         \<notin> set (warningList (validateMedia media k))
      \<and> ''Reel width should be 1080 pixels for best quality''
         \<notin> set (warningList (validateMedia media k))"
    using width_msgs_absent [of media k] by (simp add: warningList_validateMedia)
  show "media \<noteq> [] \<and> height (hd media) = None \<longrightarrow>
      ''Image height should be between 320 and 1440 pixels for best quality''
         \<notin> set (warningList (validateMedia media k))
      \<and> ''Reel height should be 1920 pixels (9:16 aspect ratio)''
         \<notin> set (warningList (validateMedia media k))"
    using height_msgs_absent [of media k] by (simp add: warningList_validateMedia)
  show "length media' = length media \<and> first media' = first media \<longrightarrow>
      errorList (validateMedia media' IMAGE) = errorList (validateMedia media IMAGE)
      \<and> errorList (validateMedia media' REEL) = errorList (validateMedia media REEL)
      \<and> warningList (validateMedia media' k) = warningList (validateMedia media k)"
    using only_first_checked [where media' = media' and media = media]
    by (simp add: errorList_validateMedia warningList_validateMedia)
  show "(\<forall>m\<in>set media. fileType m = []) \<longrightarrow>
      (\<forall>e\<in>set (errorList (validateMedia media k)). \<not> isMimeError e)"
    using no_mime_errors [of media k] by (simp add: errorList_validateMedia)
  show "(\<forall>m\<in>set media. fileSize m = None) \<longrightarrow>
      (\<forall>e\<in>set (errorList (validateMedia media k)). \<not> isSizeError e)"
    using no_size_errors [of media k] by (simp add: errorList_validateMedia)
  show "(\<forall>m\<in>set media. width m = None \<and> height m = None) \<longrightarrow>
      warnings (validateMedia media k) = None"
    using no_dim_warnings [of media k] by blast
  show "fileType a = [] \<and> fileSize a = None \<longrightarrow>
      valid (validateMedia [a] IMAGE) \<and> errors (validateMedia [a] IMAGE) = None"
    by (simp add: validate_defs)
qed

theorem validateMedia_absent_metadata_witness:
  "fileType ([asset ''a.bin'' [] None None, asset ''b.mp4'' ''video/mp4'' (Some (9 * MiB)) None] ! 0)
     = []
   \<and> fileSize ([asset ''a.bin'' [] None None, asset ''b.mp4'' ''video/mp4'' (Some (9 * MiB)) None] ! 0)
     = None
   \<and> ''Item 1 in carousel must be an image''
       \<notin> set (errorList (validateMedia
            [asset ''a.bin'' [] None None, asset ''b.mp4'' ''video/mp4'' (Some (9 * MiB)) None]
            CAROUSEL))
   \<and> ''Item 1 in carousel exceeds 8MB limit''
       \<notin> set (errorList (validateMedia
            [asset ''a.bin'' [] None None, asset ''b.mp4'' ''video/mp4'' (Some (9 * MiB)) None]
            CAROUSEL))
   \<and> errors (validateMedia
        [asset ''a.bin'' [] None None, asset ''b.mp4'' ''video/mp4'' (Some (9 * MiB)) None]
        CAROUSEL)
       = Some [''Item 2 in carousel must be an image'', ''Item 2 in carousel exceeds 8MB limit'']
   \<and> errors (validateMedia
        [asset ''a.bin'' [] None None, asset ''b.mp4'' ''video/mp4'' (Some (9 * MiB)) None]
        IMAGE)
       = Some [''Image post must have exactly 1 image'']"
proof -
  let ?media = "[asset ''a.bin'' [] None None, asset ''b.mp4'' ''video/mp4'' (Some (9 * MiB)) None]"
  have untyped: "fileType (?media ! 0) = []" and unsized: "fileSize (?media ! 0) = None"
    and index: "0 < length ?media"
    by (simp_all add: asset_def)
  have one: "show_nat (0 + 1) = ''1''"
    by (simp add: show_nat.simps digit_def)
  from validateMedia_absent_metadata [where i = 0 and media = ?media and k = CAROUSEL]
       untyped unsized index
  have "''Item '' @ show_nat (0 + 1) @ '' in carousel must be an image''
          \<notin> set (errorList (validateMedia ?media CAROUSEL))"
    and "''Item '' @ show_nat (0 + 1) @ '' in carousel exceeds 8MB limit''
          \<notin> set (errorList (validateMedia ?media CAROUSEL))"
    by blast+
  then have absent: "''Item 1 in carousel must be an image''
          \<notin> set (errorList (validateMedia ?media CAROUSEL))"
      "''Item 1 in carousel exceeds 8MB limit''
          \<notin> set (errorList (validateMedia ?media CAROUSEL))"
    by (simp_all only: one append_Cons append_Nil simp_thms)
  have carousel: "errors (validateMedia ?media CAROUSEL)
       = Some [''Item 2 in carousel must be an image'', ''Item 2 in carousel exceeds 8MB limit'']"
    by (simp add: validate_defs carouselItem_def asset_def show_nat.simps digit_def)
  have image: "errors (validateMedia ?media IMAGE) = Some [''Image post must have exactly 1 image'']"
    by (simp add: validate_defs asset_def)
  from untyped unsized absent carousel image show ?thesis by blast
qed

section \<open>Facts about the publish protocol\<close>

lemma finishPublish_success:
  "finishPublish remote ig cid token timeout net = (Inr r, net') \<Longrightarrow> success r"
  by (auto simp: finishPublish_def split: prod.splits sum.splits)

lemma publishPost_try_success:
  "publishPost_try remote post net = (Inr r, net') \<Longrightarrow> success r"
  by (auto simp: publishPost_try_def split: prod.splits sum.splits if_splits list.splits dest: finishPublish_success)

lemma publishReel_try_success:
  "publishReel_try remote post net = (Inr r, net') \<Longrightarrow> success r"
  by (auto simp: publishReel_try_def split: prod.splits sum.splits if_splits list.splits dest: finishPublish_success)

lemma publishPost_resolves:
  "\<exists>r. fst (publishPost remote post net) = Inr r \<and> (\<not> success r \<longrightarrow> error r \<noteq> None \<and> errorCode r \<noteq> None)"
  by (auto simp: publishPost_def failureResult_def split: prod.splits sum.splits dest: publishPost_try_success)

lemma publishReel_resolves:
  "\<exists>r. fst (publishReel remote post net) = Inr r \<and> (\<not> success r \<longrightarrow> error r \<noteq> None \<and> errorCode r \<noteq> None)"
  by (auto simp: publishReel_def failureResult_def split: prod.splits sum.splits dest: publishReel_try_success)

lemma missing_credential_post:
  "\<not> truthyStr (accessToken post) \<or> \<not> truthyStr (igAccountId post) \<Longrightarrow>
   publishPost remote post net = (Inr (failureResult (newError ''Missing access token or Instagram account ID'')), net)"
  by (auto simp: publishPost_def publishPost_try_def)

lemma missing_credential_reel:
  "\<not> truthyStr (accessToken post) \<or> \<not> truthyStr (igAccountId post) \<Longrightarrow>
   publishReel remote post net = (Inr (failureResult (newError ''Missing access token or Instagram account ID'')), net)"
  by (auto simp: publishReel_def publishReel_try_def)



































section \<open>Claims about the publish protocol\<close>

text \<open>
  C4, as stated, fails: a missing access credential does not make \<open>publishPost\<close> or
  \<open>publishReel\<close> throw to the caller. The check sits inside the \<open>try\<close> block, so the
  operation resolves with a failure result like for any other fault.
\<close>

theorem missing_credential_is_returned_not_thrown:
  "fst (publishPost readyRemote
          (examplePlatformPost IMAGE [asset ''a.jpg'' ''image/jpeg'' None None] None) net0)
     = Inr \<lparr> success = False, platformPostId = None, platformPostUrl = None,
             error = Some ''Missing access token or Instagram account ID'',
             errorCode = Some ''UNKNOWN'' \<rparr>
   \<and> fst (publishReel readyRemote
          (examplePlatformPost REEL [asset ''a.mp4'' ''video/mp4'' None None] None) net0)
     = Inr \<lparr> success = False, platformPostId = None, platformPostUrl = None,
             error = Some ''Missing access token or Instagram account ID'',
             errorCode = Some ''UNKNOWN'' \<rparr>"
  by (simp add: publishPost_def publishPost_try_def publishReel_def publishReel_try_def
        examplePlatformPost_def truthyStr_def failureResult_def newError_def)

text \<open>
  C4, amended: \<open>publishPost\<close> and \<open>publishReel\<close> never throw. Every fault of the \<open>try\<close>
  block (a remote-API failure, a polling fault, and also a missing access credential or
  account identifier) is captured in a returned result with \<open>success = false\<close>, the error's
  message and an error code; with a missing credential no request is sent.
\<close>

theorem publish_never_throws:
  "(\<exists>r. fst (publishPost remote post net) = Inr r
        \<and> (\<not> success r \<longrightarrow> error r \<noteq> None \<and> errorCode r \<noteq> None))
   \<and> (\<exists>r. fst (publishReel remote post net) = Inr r
        \<and> (\<not> success r \<longrightarrow> error r \<noteq> None \<and> errorCode r \<noteq> None))
   \<and> (fst (publishPost_try remote post net) = Inl e \<longrightarrow>
        fst (publishPost remote post net) = Inr (failureResult e))
   \<and> (fst (publishReel_try remote post net) = Inl e \<longrightarrow>
        fst (publishReel remote post net) = Inr (failureResult e))
   \<and> (\<not> truthyStr (accessToken post) \<or> \<not> truthyStr (igAccountId post) \<longrightarrow>
        publishPost remote post net
          = (Inr (failureResult (newError ''Missing access token or Instagram account ID'')), net)
        \<and> publishReel remote post net
          = (Inr (failureResult (newError ''Missing access token or Instagram account ID'')), net))"
proof -
  have "fst (publishPost_try remote post net) = Inl e \<longrightarrow>
        fst (publishPost remote post net) = Inr (failureResult e)"
    by (auto simp: publishPost_def split: prod.splits)
  moreover have "fst (publishReel_try remote post net) = Inl e \<longrightarrow>
        fst (publishReel remote post net) = Inr (failureResult e)"
    by (auto simp: publishReel_def split: prod.splits)
  ultimately show ?thesis
    using publishPost_resolves [of remote post net] publishReel_resolves [of remote post net]
      missing_credential_post [of post remote net] missing_credential_reel [of post remote net]
    by blast
qed

theorem publish_never_throws_witness:
  "\<not> truthyStr (accessToken (examplePlatformPost CAROUSEL [] None))
   \<and> publishPost stuckRemote (examplePlatformPost CAROUSEL [] None) net0
       = (Inr \<lparr> success = False, platformPostId = None, platformPostUrl = None,
                error = Some ''Missing access token or Instagram account ID'',
                errorCode = Some ''UNKNOWN'' \<rparr>, net0)"
proof -
  have h: "\<not> truthyStr (accessToken (examplePlatformPost CAROUSEL [] None))"
    by (simp add: examplePlatformPost_def truthyStr_def)
  with publish_never_throws [of stuckRemote "examplePlatformPost CAROUSEL [] None" net0]
  have "publishPost stuckRemote (examplePlatformPost CAROUSEL [] None) net0
          = (Inr (failureResult (newError ''Missing access token or Instagram account ID'')), net0)"
    by blast
  with h show ?thesis
    by (simp add: failureResult_def newError_def)
qed






section \<open>Facts about the publish worker\<close>

lemmas worker_defs = processPublishJob_def tryBlock_def catchBlock_def preparePostForPublishing_def
  getAdapter_def platformFactory_def register_def toLowerCase_def toLowerChar_def callPublish_def
  updatePost_def createJobLog_def newError_def failureResult_def orElse_def truthyStr_def
  toPlatformPost_def toMediaAsset_def numOrUndefined_def truthyNum_def
  examplePost_def exampleAccount_def exampleWorld_def failingAdapter_def workingAdapter_def



lemma catchBlock_missing:
  "posts w postId = None \<Longrightarrow> catchBlock err postId w = (Returned (ReturnError (message err)), w)"
  by (simp add: catchBlock_def)






lemma unknown_platform:
  assumes row: "posts w postId = Some row"
    and st: "status row = PENDING"
    and acc: "accounts w (row_socialAccountId row) = Some account"
    and unknown: "adapters (toLowerCase (row_platform row)) = None"
  shows "processPublishJob adapters now postId w =
     (if retryCount row < 2 then Threw (newError (''Platform adapter not found: '' @ row_platform row))
      else Returned (ReturnError (''Platform adapter not found: '' @ row_platform row)),
      createJobLog
        \<lparr> scheduledPostId = postId, log_status = ''error'',
          log_message = ''Platform adapter not found: '' @ row_platform row,
          errorDetails = CaughtDetails (''Platform adapter not found: '' @ row_platform row)
            (retryCount row + 1) (retryCount row + 1 < 3) \<rparr>
        (updatePost postId
           (\<lambda>r. r \<lparr> status := (if retryCount row + 1 < 3 then PENDING else FAILED),
                    retryCount := retryCount row + 1,
                    errorMessage := Some (''Platform adapter not found: '' @ row_platform row) \<rparr>)
           w))"
  using assms
  by (auto simp: processPublishJob_def tryBlock_def preparePostForPublishing_def getAdapter_def
        catchBlock_def toPlatformPost_def newError_def split: option.splits)

section \<open>Claims about the publish worker\<close>

text \<open>
  C1: a job for a post that is not \<open>pending\<close> must leave the post unchanged, also when an
  early step throws. The handler checks the status only after
  \<open>preparePostForPublishing\<close> has returned; when that step throws, the \<open>catch\<close> block
  updates the post whatever its status. Evaluated here for a \<open>cancelled\<close> post whose
  account token has expired and whose refresh fails: the post comes out \<open>pending\<close> with
  \<open>retryCount\<close> 1 and an error message, and the error is rethrown to the queue.
\<close>

theorem cancelled_post_mutated_when_prepare_throws:
  "map_option status (posts (exampleWorld (examplePost CANCELLED 0 ''instagram'')
                               (exampleAccount (Some 50))) ''p1'') = Some CANCELLED
   \<and> fst (processPublishJob (platformFactory failingAdapter) 100 ''p1''
            (exampleWorld (examplePost CANCELLED 0 ''instagram'') (exampleAccount (Some 50))))
       = Threw (newError ''Failed to refresh token: timeout'')
   \<and> posts (snd (processPublishJob (platformFactory failingAdapter) 100 ''p1''
            (exampleWorld (examplePost CANCELLED 0 ''instagram'') (exampleAccount (Some 50)))))
        ''p1''
       = Some ((examplePost CANCELLED 0 ''instagram'')
                 \<lparr> status := PENDING, retryCount := 1,
                   errorMessage := Some ''Failed to refresh token: timeout'' \<rparr>)
   \<and> publishCalls (snd (processPublishJob (platformFactory failingAdapter) 100 ''p1''
            (exampleWorld (examplePost CANCELLED 0 ''instagram'') (exampleAccount (Some 50)))))
       = 0"
  by (simp add: worker_defs)

text \<open>
  C2, as stated, fails: for a pending post on a platform without a registered adapter, the
  first execution leaves the post \<open>pending\<close> (with \<open>retryCount\<close> 1) and rethrows the
  error, so the queue retries it.
\<close>

theorem unknown_platform_first_attempt_stays_pending:
  "platformFactory workingAdapter (toLowerCase ''youtube'') = None
   \<and> fst (processPublishJob (platformFactory workingAdapter) 100 ''p1''
            (exampleWorld (examplePost PENDING 0 ''youtube'') (exampleAccount None)))
       = Threw (newError ''Platform adapter not found: youtube'')
   \<and> map_option status
        (posts (snd (processPublishJob (platformFactory workingAdapter) 100 ''p1''
            (exampleWorld (examplePost PENDING 0 ''youtube'') (exampleAccount None)))) ''p1'')
       = Some PENDING
   \<and> map_option retryCount
        (posts (snd (processPublishJob (platformFactory workingAdapter) 100 ''p1''
            (exampleWorld (examplePost PENDING 0 ''youtube'') (exampleAccount None)))) ''p1'')
       = Some 1"
  by (simp add: worker_defs)

text \<open>
  C2, amended: a publish job for a pending post whose platform has no registered adapter is
  handled like any other thrown fault. No publish is attempted, one \<open>error\<close> job log is
  written, the retry counter is incremented by one and the message
  \<open>Platform adapter not found: <platform>\<close> is stored; the post stays \<open>pending\<close> and the
  error is rethrown to the queue while the new \<open>retryCount\<close> is below 3, and the post
  becomes \<open>failed\<close> (the handler returning normally) once it reaches 3.
\<close>

theorem unknown_platform_is_retried:
  assumes "posts w postId = Some row"
    and "status row = PENDING"
    and "accounts w (row_socialAccountId row) = Some account"
    and "adapters (toLowerCase (row_platform row)) = None"
  shows "fst (processPublishJob adapters now postId w)
           = (if retryCount row + 1 < 3
              then Threw (newError (''Platform adapter not found: '' @ row_platform row))
              else Returned (ReturnError (''Platform adapter not found: '' @ row_platform row)))
     \<and> posts (snd (processPublishJob adapters now postId w)) postId
           = Some (row \<lparr> status := (if retryCount row + 1 < 3 then PENDING else FAILED),
                         retryCount := retryCount row + 1,
                         errorMessage := Some (''Platform adapter not found: '' @ row_platform row) \<rparr>)
     \<and> publishCalls (snd (processPublishJob adapters now postId w)) = publishCalls w
     \<and> postUpdates (snd (processPublishJob adapters now postId w)) = postUpdates w + 1
     \<and> jobLogs (snd (processPublishJob adapters now postId w))
           = jobLogs w @ [\<lparr> scheduledPostId = postId, log_status = ''error'',
                 log_message = ''Platform adapter not found: '' @ row_platform row,
                 errorDetails = CaughtDetails (''Platform adapter not found: '' @ row_platform row)
                   (retryCount row + 1) (retryCount row + 1 < 3) \<rparr>]"
  using assms
    unknown_platform [where w = w and postId = postId and row = row and account = account
                        and adapters = adapters and now = now]
  by (auto simp: createJobLog_def updatePost_def newError_def)

theorem unknown_platform_is_retried_witness:
  "status (examplePost PENDING 2 ''youtube'') = PENDING
   \<and> platformFactory workingAdapter (toLowerCase (row_platform (examplePost PENDING 2 ''youtube'')))
       = None
   \<and> fst (processPublishJob (platformFactory workingAdapter) 100 ''p1''
            (exampleWorld (examplePost PENDING 2 ''youtube'') (exampleAccount None)))
       = Returned (ReturnError ''Platform adapter not found: youtube'')
   \<and> map_option status
        (posts (snd (processPublishJob (platformFactory workingAdapter) 100 ''p1''
            (exampleWorld (examplePost PENDING 2 ''youtube'') (exampleAccount None)))) ''p1'')
       = Some FAILED"
proof -
  have row: "posts (exampleWorld (examplePost PENDING 2 ''youtube'') (exampleAccount None)) ''p1''
               = Some (examplePost PENDING 2 ''youtube'')"
    by (simp add: exampleWorld_def)
  have st: "status (examplePost PENDING 2 ''youtube'') = PENDING"
    by (simp add: examplePost_def)
  have acc: "accounts (exampleWorld (examplePost PENDING 2 ''youtube'') (exampleAccount None))
               (row_socialAccountId (examplePost PENDING 2 ''youtube'')) = Some (exampleAccount None)"
    by (simp add: exampleWorld_def examplePost_def)
  have unknown: "platformFactory workingAdapter
                   (toLowerCase (row_platform (examplePost PENDING 2 ''youtube''))) = None"
    by (simp add: platformFactory_def register_def toLowerCase_def toLowerChar_def examplePost_def)
  from unknown_platform_is_retried
         [where w = "exampleWorld (examplePost PENDING 2 ''youtube'') (exampleAccount None)"
            and postId = "''p1''" and row = "examplePost PENDING 2 ''youtube''"
            and account = "exampleAccount None" and adapters = "platformFactory workingAdapter"
            and now = 100]
       row st acc unknown
  have "fst (processPublishJob (platformFactory workingAdapter) 100 ''p1''
            (exampleWorld (examplePost PENDING 2 ''youtube'') (exampleAccount None)))
       = Returned (ReturnError ''Platform adapter not found: youtube'')
     \<and> map_option status
        (posts (snd (processPublishJob (platformFactory workingAdapter) 100 ''p1''
            (exampleWorld (examplePost PENDING 2 ''youtube'') (exampleAccount None)))) ''p1'')
       = Some FAILED"
    by (simp add: examplePost_def)
  with st unknown show ?thesis by blast
qed




text \<open>
  C5: every failed attempt must increment the retry counter by exactly one. When the adapter
  reports a failure and retries are left, the handler updates the post, writes a \<open>failed\<close>
  job log and then throws inside its own \<open>try\<close> block to trigger the retry; the \<open>catch\<close>
  block handles that throw as a new fault and increments, updates and logs a second time.
  Evaluated here for a pending post with \<open>retryCount\<close> 0 and one failing publish call:
  the counter ends at 2, with two job logs and two updates.
\<close>

theorem reported_failure_counted_twice:
  "map_option retryCount
     (posts (exampleWorld (examplePost PENDING 0 ''instagram'') (exampleAccount None)) ''p1'')
     = Some 0
   \<and> map_option retryCount
       (posts (snd (processPublishJob (platformFactory failingAdapter) 100 ''p1''
          (exampleWorld (examplePost PENDING 0 ''instagram'') (exampleAccount None)))) ''p1'')
     = Some 2
   \<and> map log_status
       (jobLogs (snd (processPublishJob (platformFactory failingAdapter) 100 ''p1''
          (exampleWorld (examplePost PENDING 0 ''instagram'') (exampleAccount None)))))
     = [''failed'', ''error'']
   \<and> postUpdates (snd (processPublishJob (platformFactory failingAdapter) 100 ''p1''
          (exampleWorld (examplePost PENDING 0 ''instagram'') (exampleAccount None)))) = 2
   \<and> publishCalls (snd (processPublishJob (platformFactory failingAdapter) 100 ''p1''
          (exampleWorld (examplePost PENDING 0 ''instagram'') (exampleAccount None)))) = 1
   \<and> map_option retryCount
       (posts (snd (processPublishJob (platformFactory failingAdapter) 100 ''p1''
          (exampleWorld (examplePost PENDING 1 ''instagram'') (exampleAccount None)))) ''p1'')
     = Some 3
   \<and> map_option status
       (posts (snd (processPublishJob (platformFactory failingAdapter) 100 ''p1''
          (exampleWorld (examplePost PENDING 1 ''instagram'') (exampleAccount None)))) ''p1'')
     = Some FAILED"
  by (simp add: worker_defs)

end
